theory Spec2Isabelle
  imports Main
begin

section \<open>The Mistral FIM language model: request builder and response normalisation\<close>

text \<open>
  A shallow embedding of \<^verbatim>\<open>MistralFimLanguageModel\<close> (the class with \<^verbatim>\<open>getArgs\<close>,
  \<^verbatim>\<open>doGenerate\<close> and \<^verbatim>\<open>doStream\<close>) and of the helpers \<^verbatim>\<open>extractTextContent\<close> and
  \<^verbatim>\<open>extractUserPromptContent\<close>.

  The type variable \<open>'n\<close> stands for the JavaScript \<^verbatim>\<open>number\<close> values
  (\<^verbatim>\<open>z.number()\<close>): the code only copies them, it never computes with them.
  A JavaScript string is a \<open>string\<close>; \<^verbatim>\<open>s.length > 0\<close> is \<open>s \<noteq> []\<close>.
  A value that may be \<^verbatim>\<open>null\<close> or \<^verbatim>\<open>undefined\<close> is an \<open>option\<close>, because the code
  tests it with \<^verbatim>\<open>!= null\<close> only, which does not tell the two apart.
\<close>

subsection \<open>The call description\<close>

datatype 'n json =
    JNull
  | JBool bool
  | JNumber 'n
  | JString string
  | JArray "'n json list"
  | JObject "(string \<times> 'n json) list"

text \<open>
  The parts of a prompt message. Only the \<^verbatim>\<open>type\<close> tag and, for a text part, its
  \<^verbatim>\<open>text\<close> are read by this code; the other parts keep one payload string.
\<close>

datatype prompt_part =
    TextPart string
  | FilePart string
  | ReasoningPart string
  | ToolCallPart string
  | ToolResultPart string

text \<open>A message is tagged by its role; a system message holds a plain string.\<close>

datatype prompt_message =
    SystemMessage string
  | UserMessage "prompt_part list"
  | AssistantMessage "prompt_part list"
  | ToolMessage "prompt_part list"

datatype response_format = TextFormat | JsonFormat

datatype tool = FunctionTool string | ProviderDefinedTool string

datatype tool_choice = AutoChoice | NoneChoice | RequiredChoice | ToolNamed string

record 'n call_options =
  prompt :: "prompt_message list"
  maxOutputTokens :: "'n option"
  temperature :: "'n option"
  topP :: "'n option"
  topK :: "'n option"
  frequencyPenalty :: "'n option"
  presencePenalty :: "'n option"
  stopSequences :: "string list option"
  responseFormat :: "response_format option"
  seed :: "'n option"
  providerOptions :: "(string \<times> (string \<times> 'n json) list) list option"
  tools :: "tool list option"
  toolChoice :: "tool_choice option"
  includeRawChunks :: "bool option"

subsection \<open>Errors\<close>

text \<open>
  Every exception the modelled code can throw is a value: the rejected provider options
  (\<^verbatim>\<open>parseProviderOptions\<close>), \<^verbatim>\<open>new Error('Empty prompt')\<close>, the failure of the
  injected \<^verbatim>\<open>config.headers()\<close>, a rejection of \<^verbatim>\<open>postJsonToApi\<close>, and the
  \<^verbatim>\<open>TypeError\<close> of reading a property of \<^verbatim>\<open>undefined\<close>.
\<close>

datatype error =
    InvalidArgumentError
  | EmptyPrompt
  | LoadAPIKeyError
  | APICallError string
  | TypeError

subsection \<open>Provider options (\<^verbatim>\<open>mistral-fim-options.ts\<close>)\<close>

datatype stop_value = StopString string | StopList "string list"

record 'n mistral_fim_provider_options =
  opt_stop :: "stop_value option"
  opt_suffix :: "string option"
  opt_min_token :: "'n option"

text \<open>\<^verbatim>\<open>z.array(z.string())\<close>: every element must be a string.\<close>

fun string_array :: "'n json list \<Rightarrow> string list option" where
  "string_array [] = Some []"
| "string_array (JString s # js) = map_option ((#) s) (string_array js)"
| "string_array (_ # js) = None"

text \<open>
  The three fields of the schema. The outer \<open>option\<close> is the validation result
  (\<open>None\<close>: the value is rejected), the inner one the optional field.
\<close>

fun stop_field :: "'n json option \<Rightarrow> stop_value option option" where
  "stop_field None = Some None"
| "stop_field (Some (JString s)) = Some (Some (StopString s))"
| "stop_field (Some (JArray js)) = map_option (\<lambda>ss. Some (StopList ss)) (string_array js)"
| "stop_field (Some _) = None"

fun suffix_field :: "'n json option \<Rightarrow> string option option" where
  "suffix_field None = Some None"
| "suffix_field (Some (JString s)) = Some (Some s)"
| "suffix_field (Some _) = None"

fun min_token_field :: "'n json option \<Rightarrow> 'n option option" where
  "min_token_field None = Some None"
| "min_token_field (Some (JNumber n)) = Some (Some n)"
| "min_token_field (Some _) = None"

text \<open>
  \<^verbatim>\<open>mistralFimProviderOptions\<close>: a \<^verbatim>\<open>z.object\<close> of three optional fields; keys it does
  not name are dropped.
\<close>

definition mistralFimProviderOptions ::
  "(string \<times> 'n json) list \<Rightarrow> 'n mistral_fim_provider_options option" where
  "mistralFimProviderOptions obj =
     (case stop_field (map_of obj ''stop'') of
        None \<Rightarrow> None
      | Some st \<Rightarrow>
          (case suffix_field (map_of obj ''suffix'') of
             None \<Rightarrow> None
           | Some su \<Rightarrow>
               (case min_token_field (map_of obj ''min_token'') of
                  None \<Rightarrow> None
                | Some mt \<Rightarrow>
                    Some \<lparr>opt_stop = st, opt_suffix = su, opt_min_token = mt\<rparr>)))"

text \<open>
  \<^verbatim>\<open>parseProviderOptions\<close> of the provider utilities: \<^verbatim>\<open>undefined\<close> when the bag has
  no entry for the provider, the validated entry otherwise, and an invalid-argument
  exception when the entry fails the schema.
\<close>

definition parseProviderOptions ::
  "string \<Rightarrow> (string \<times> (string \<times> 'n json) list) list option
     \<Rightarrow> error + 'n mistral_fim_provider_options option" where
  "parseProviderOptions provider bag =
     (case bag of
        None \<Rightarrow> Inr None
      | Some entries \<Rightarrow>
          (case map_of entries provider of
             None \<Rightarrow> Inr None
           | Some obj \<Rightarrow>
               (case mistralFimProviderOptions obj of
                  None \<Rightarrow> Inl InvalidArgumentError
                | Some opts \<Rightarrow> Inr (Some opts))))"

subsection \<open>The request builder\<close>

datatype warning = UnsupportedSetting string

record 'n args =
  arg_model :: string
  arg_temperature :: "'n option"
  arg_top_p :: "'n option"
  arg_max_tokens :: "'n option"
  arg_stop :: "stop_value option"
  arg_random_seed :: "'n option"
  arg_prompt :: string
  arg_suffix :: "string option"
  arg_min_tokens :: "'n option"

text \<open>
  The instance: its model id and the configuration it was built with. \<open>config_headers\<close>
  is the outcome of calling \<^verbatim>\<open>config.headers()\<close>, which loads the API key and may throw.
\<close>

record fim_model =
  modelId :: string
  provider :: string
  baseURL :: string
  config_headers :: "error + (string \<times> string) list"

text \<open>The inner loop of \<^verbatim>\<open>extractUserPromptContent\<close>: the first part tagged \<^verbatim>\<open>text\<close>.\<close>

fun first_text_part :: "prompt_part list \<Rightarrow> string option" where
  "first_text_part [] = None"
| "first_text_part (TextPart t # ps) = Some t"
| "first_text_part (_ # ps) = first_text_part ps"

text \<open>
  The outer loop skips every message whose role is not \<^verbatim>\<open>user\<close>; when the inner loop
  ends without returning, the outer loop goes on with the next message.
\<close>

fun extractUserPromptContent :: "prompt_message list \<Rightarrow> string option" where
  "extractUserPromptContent [] = None"
| "extractUserPromptContent (UserMessage parts # ms) =
     (case first_text_part parts of
        Some t \<Rightarrow> Some t
      | None \<Rightarrow> extractUserPromptContent ms)"
| "extractUserPromptContent (_ # ms) = extractUserPromptContent ms"

text \<open>The seven \<^verbatim>\<open>if (x != null) warnings.push(...)\<close> statements, in their order.\<close>

definition unsupported :: "'a option \<Rightarrow> string \<Rightarrow> warning list" where
  "unsupported x name = (if x \<noteq> None then [UnsupportedSetting name] else [])"

definition getArgs_warnings :: "'n call_options \<Rightarrow> warning list" where
  "getArgs_warnings c =
     unsupported (topK c) ''topK'' @
     unsupported (frequencyPenalty c) ''frequencyPenalty'' @
     unsupported (presencePenalty c) ''presencePenalty'' @
     unsupported (stopSequences c) ''stopSequences'' @
     unsupported (responseFormat c) ''responseFormat'' @
     unsupported (tools c) ''tools'' @
     unsupported (toolChoice c) ''toolChoice''"

text \<open>\<^verbatim>\<open>?? {}\<close>: the options when the bag has no entry for the provider.\<close>

definition no_options :: "'n mistral_fim_provider_options" where
  "no_options = \<lparr>opt_stop = None, opt_suffix = None, opt_min_token = None\<rparr>"

text \<open>
  \<^verbatim>\<open>getArgs\<close>. \<^verbatim>\<open>!prefix\<close> holds when the prefix is \<^verbatim>\<open>undefined\<close> or the empty
  string.
\<close>

definition getArgs ::
  "fim_model \<Rightarrow> 'n call_options \<Rightarrow> error + ('n args \<times> warning list)" where
  "getArgs this c =
     (case parseProviderOptions (provider this) (providerOptions c) of
        Inl e \<Rightarrow> Inl e
      | Inr parsed \<Rightarrow>
          (let options = (case parsed of None \<Rightarrow> no_options | Some opts \<Rightarrow> opts);
               warnings = getArgs_warnings c
           in case extractUserPromptContent (prompt c) of
                None \<Rightarrow> Inl EmptyPrompt
              | Some prefix \<Rightarrow>
                  if prefix = [] then Inl EmptyPrompt
                  else Inr (\<lparr>arg_model = modelId this,
                             arg_temperature = temperature c,
                             arg_top_p = topP c,
                             arg_max_tokens = maxOutputTokens c,
                             arg_stop = opt_stop options,
                             arg_random_seed = seed c,
                             arg_prompt = prefix,
                             arg_suffix = opt_suffix options,
                             arg_min_tokens = opt_min_token options\<rparr>,
                            warnings)))"

subsection \<open>The wire responses (the two schemas)\<close>

datatype image_url = ImageUrlString string | ImageUrlObject string "string option"

text \<open>The discriminated union of content parts; the schema admits these four tags only.\<close>

datatype 'n content_part =
    TextContent string
  | ImageUrlContent image_url
  | ReferenceContent "'n list"
  | ThinkingContent "string list"

text \<open>
  \<^verbatim>\<open>mistralContentSchema\<close>, without its \<^verbatim>\<open>nullish()\<close>: a value of that schema is an
  \<open>'n content option\<close>.
\<close>

datatype 'n content = ContentString string | ContentParts "'n content_part list"

datatype tool_call = ToolCall string string string

text \<open>
  The \<^verbatim>\<open>message\<close> of a choice and the \<^verbatim>\<open>delta\<close> of a chunk choice have the same
  fields (\<open>role\<close> is always present in a message, optional in a delta).
\<close>

record 'n wire_message =
  role :: "string option"
  content :: "'n content option"
  tool_calls :: "tool_call list option"

record 'n response_choice =
  message :: "'n wire_message"
  choice_index :: 'n
  choice_finish_reason :: "string option"

record 'n mistral_usage =
  prompt_tokens :: 'n
  completion_tokens :: 'n
  total_tokens :: 'n

text \<open>\<^verbatim>\<open>mistralChatResponseSchema\<close>: \<^verbatim>\<open>choices\<close> is an array of any length.\<close>

record 'n chat_response =
  resp_id :: "string option"
  resp_created :: "'n option"
  resp_model :: "string option"
  resp_choices :: "'n response_choice list"
  resp_usage :: "'n mistral_usage"

record 'n chunk_choice =
  delta :: "'n wire_message"
  delta_finish_reason :: "string option"
  delta_index :: 'n

text \<open>\<^verbatim>\<open>mistralChatChunkSchema\<close>: \<^verbatim>\<open>choices\<close> is an array of any length, \<^verbatim>\<open>usage\<close> nullish.\<close>

record 'n chat_chunk =
  chunk_id :: "string option"
  chunk_created :: "'n option"
  chunk_model :: "string option"
  chunk_choices :: "'n chunk_choice list"
  chunk_usage :: "'n mistral_usage option"

text \<open>
  \<^verbatim>\<open>ParseResult\<close>: what the event source handler delivers for one server-sent event,
  the validated chunk or the parse failure, each with the raw payload.
\<close>

datatype parse_error = JSONParseError string | TypeValidationError string

datatype 'n parse_result =
    Success "'n chat_chunk" "'n json"
  | Failure parse_error "'n json"

fun rawValue :: "'n parse_result \<Rightarrow> 'n json" where
  "rawValue (Success v r) = r"
| "rawValue (Failure e r) = r"

subsection \<open>The normalised shapes\<close>

datatype finish_reason =
    FinishStop
  | FinishLength
  | FinishContentFilter
  | FinishToolCalls
  | FinishError
  | FinishOther
  | FinishUnknown

datatype v2_content = TextItem string

record 'n v2_usage =
  inputTokens :: "'n option"
  outputTokens :: "'n option"
  totalTokens :: "'n option"

text \<open>An absolute timestamp, given by the epoch seconds it was made from.\<close>

datatype 'n timestamp = DateOfSeconds 'n

record 'n response_metadata =
  meta_id :: "string option"
  meta_modelId :: "string option"
  meta_timestamp :: "'n timestamp option"

datatype 'n stream_part =
    StreamStart "warning list"
  | Raw "'n json"
  | ResponseMetadata "'n response_metadata"
  | TextStart string
  | TextDelta string string
  | TextEnd string
  | ErrorPart parse_error
  | Finish finish_reason "'n v2_usage"

subsection \<open>Helpers\<close>

text \<open>
  Modelled from the spec: \<^verbatim>\<open>mapMistralFinishReason\<close> (the module
  \<^verbatim>\<open>./map-mistral-finish-reason\<close> is not among the sources). The spec gives the table:
  \<^verbatim>\<open>"stop"\<close> to stop; \<^verbatim>\<open>"length"\<close> and \<^verbatim>\<open>"model_length"\<close> to length; \<^verbatim>\<open>"error"\<close> to
  error; anything else, including null or absent, to unknown.
\<close>

definition mapMistralFinishReason :: "string option \<Rightarrow> finish_reason" where
  "mapMistralFinishReason r =
     (if r = Some ''stop'' then FinishStop
      else if r = Some ''length'' \<or> r = Some ''model_length'' then FinishLength
      else if r = Some ''error'' then FinishError
      else FinishUnknown)"

text \<open>
  Modelled from the spec: \<^verbatim>\<open>getResponseMetadata\<close> (the module
  \<^verbatim>\<open>./get-response-metadata\<close> is not among the sources). The spec: id, created timestamp
  (converted from epoch seconds to an absolute timestamp) and model name, all optional,
  undefined if absent on the wire.
\<close>

definition getResponseMetadata ::
  "string option \<Rightarrow> 'n option \<Rightarrow> string option \<Rightarrow> 'n response_metadata" where
  "getResponseMetadata i created m =
     \<lparr>meta_id = i, meta_modelId = m, meta_timestamp = map_option DateOfSeconds created\<rparr>"

text \<open>
  The loop of \<^verbatim>\<open>extractTextContent\<close>: the texts pushed, in order. The \<^verbatim>\<open>default\<close> arm
  of the switch (an unknown tag) has no value of the schema that reaches it.
\<close>

fun text_parts :: "'n content_part list \<Rightarrow> string list" where
  "text_parts [] = []"
| "text_parts (TextContent t # ps) = t # text_parts ps"
| "text_parts (ThinkingContent th # ps) = text_parts ps"
| "text_parts (ImageUrlContent u # ps) = text_parts ps"
| "text_parts (ReferenceContent ids # ps) = text_parts ps"

text \<open>
  \<^verbatim>\<open>extractTextContent\<close>: a string is returned as it is; null or undefined gives
  \<^verbatim>\<open>undefined\<close>; a list gives the joined texts when at least one text part was pushed.
\<close>

fun extractTextContent :: "'n content option \<Rightarrow> string option" where
  "extractTextContent (Some (ContentString s)) = Some s"
| "extractTextContent None = None"
| "extractTextContent (Some (ContentParts ps)) =
     (if text_parts ps \<noteq> [] then Some (concat (text_parts ps)) else None)"

subsection \<open>The synchronous path\<close>

text \<open>The loop of \<^verbatim>\<open>doGenerate\<close> over a content list: one item per non-empty text part.\<close>

fun push_text_parts :: "'n content_part list \<Rightarrow> v2_content list" where
  "push_text_parts [] = []"
| "push_text_parts (TextContent t # ps) =
     (if t \<noteq> [] then TextItem t # push_text_parts ps else push_text_parts ps)"
| "push_text_parts (_ # ps) = push_text_parts ps"

text \<open>
  The content of the result: the branch on \<^verbatim>\<open>Array.isArray\<close>, and in the other branch
  the call of \<^verbatim>\<open>extractTextContent\<close>.
\<close>

fun doGenerate_content :: "'n content option \<Rightarrow> v2_content list" where
  "doGenerate_content (Some (ContentParts ps)) = push_text_parts ps"
| "doGenerate_content c =
     (case extractTextContent c of
        None \<Rightarrow> []
      | Some t \<Rightarrow> if t \<noteq> [] then [TextItem t] else [])"

record 'n request_body =
  body_args :: "'n args"
  body_stream :: "bool option"

text \<open>What \<^verbatim>\<open>postJsonToApi\<close> resolves to: the headers, the handled value, the raw value.\<close>

record ('v, 'n) api_response =
  responseHeaders :: "(string \<times> string) list"
  api_value :: 'v
  api_rawValue :: "'n json"

record 'n response_info =
  info_metadata :: "'n response_metadata"
  info_headers :: "(string \<times> string) list"
  info_body :: "'n json"

record 'n generate_result =
  result_content :: "v2_content list"
  result_finishReason :: finish_reason
  result_usage :: "'n v2_usage"
  result_request :: "'n request_body"
  result_response :: "'n response_info"
  result_warnings :: "warning list"

text \<open>
  The part of \<^verbatim>\<open>doGenerate\<close> after the HTTP call. \<^verbatim>\<open>response.choices[0]\<close> is
  \<^verbatim>\<open>undefined\<close> for an empty list, and reading \<^verbatim>\<open>choice.message\<close> then throws.
\<close>

definition doGenerate_result ::
  "'n request_body \<Rightarrow> warning list \<Rightarrow> ('n chat_response, 'n) api_response
     \<Rightarrow> error + 'n generate_result" where
  "doGenerate_result body warnings r =
     (let response = api_value r in
      case resp_choices response of
        [] \<Rightarrow> Inl TypeError
      | choice # _ \<Rightarrow>
          Inr \<lparr>result_content = doGenerate_content (content (message choice)),
               result_finishReason = mapMistralFinishReason (choice_finish_reason choice),
               result_usage =
                 \<lparr>inputTokens = Some (prompt_tokens (resp_usage response)),
                  outputTokens = Some (completion_tokens (resp_usage response)),
                  totalTokens = Some (total_tokens (resp_usage response))\<rparr>,
               result_request = body,
               result_response =
                 \<lparr>info_metadata =
                    getResponseMetadata (resp_id response) (resp_created response)
                      (resp_model response),
                  info_headers = responseHeaders r,
                  info_body = api_rawValue r\<rparr>,
               result_warnings = warnings\<rparr>)"

text \<open>
  \<^verbatim>\<open>doGenerate\<close>. The HTTP transport is the parameter \<open>post\<close>; the second component of
  the result lists the request bodies handed to it, in order (the network calls made).
\<close>

definition doGenerate ::
  "fim_model \<Rightarrow> ('n request_body \<Rightarrow> error + ('n chat_response, 'n) api_response)
     \<Rightarrow> 'n call_options \<Rightarrow> (error + 'n generate_result) \<times> 'n request_body list" where
  "doGenerate this post c =
     (case getArgs this c of
        Inl e \<Rightarrow> (Inl e, [])
      | Inr (args, warnings) \<Rightarrow>
          (let body = \<lparr>body_args = args, body_stream = None\<rparr> in
           case config_headers this of
             Inl e \<Rightarrow> (Inl e, [])
           | Inr hs \<Rightarrow>
               (case post body of
                  Inl e \<Rightarrow> (Inl e, [body])
                | Inr r \<Rightarrow> (doGenerate_result body warnings r, [body]))))"

subsection \<open>The streaming path\<close>

text \<open>The four variables that \<^verbatim>\<open>doStream\<close> declares and the transformer closes over.\<close>

record 'n stream_state =
  finishReason :: finish_reason
  usage :: "'n v2_usage"
  isFirstChunk :: bool
  activeText :: bool

definition initial_state :: "'n stream_state" where
  "initial_state =
     \<lparr>finishReason = FinishUnknown,
      usage = \<lparr>inputTokens = None, outputTokens = None, totalTokens = None\<rparr>,
      isFirstChunk = True,
      activeText = False\<rparr>"

text \<open>
  The statements of \<^verbatim>\<open>transform\<close> after the parse check, for a parsed chunk. Each takes
  the state and returns the parts it enqueues with the state it leaves.
\<close>

definition emit_metadata ::
  "'n chat_chunk \<Rightarrow> 'n stream_state \<Rightarrow> 'n stream_part list \<times> 'n stream_state" where
  "emit_metadata v st =
     (if isFirstChunk st
      then ([ResponseMetadata
               (getResponseMetadata (chunk_id v) (chunk_created v) (chunk_model v))],
            st\<lparr>isFirstChunk := False\<rparr>)
      else ([], st))"

definition track_usage :: "'n chat_chunk \<Rightarrow> 'n stream_state \<Rightarrow> 'n stream_state" where
  "track_usage v st =
     (case chunk_usage v of
        None \<Rightarrow> st
      | Some u \<Rightarrow>
          st\<lparr>usage := \<lparr>inputTokens = Some (prompt_tokens u),
                       outputTokens = Some (completion_tokens u),
                       totalTokens = Some (total_tokens u)\<rparr>\<rparr>)"

definition emit_text ::
  "string option \<Rightarrow> 'n stream_state \<Rightarrow> 'n stream_part list \<times> 'n stream_state" where
  "emit_text textContent st =
     (case textContent of
        None \<Rightarrow> ([], st)
      | Some t \<Rightarrow>
          if t \<noteq> []
          then ((if \<not> activeText st then [TextStart ''0''] else []) @ [TextDelta ''0'' t],
                st\<lparr>activeText := True\<rparr>)
          else ([], st))"

definition track_finish :: "string option \<Rightarrow> 'n stream_state \<Rightarrow> 'n stream_state" where
  "track_finish r st =
     (case r of
        None \<Rightarrow> st
      | Some x \<Rightarrow> st\<lparr>finishReason := mapMistralFinishReason (Some x)\<rparr>)"

text \<open>
  \<^verbatim>\<open>transform(chunk, controller)\<close>: the parts enqueued by this call, and either the
  state it leaves or the exception it throws. \<^verbatim>\<open>value.choices[0]\<close> is \<^verbatim>\<open>undefined\<close>
  for an empty list, and reading \<^verbatim>\<open>choice.delta\<close> then throws; the raw part, the
  metadata part and the usage update come before that line.
\<close>

definition transform ::
  "bool \<Rightarrow> 'n stream_state \<Rightarrow> 'n parse_result
     \<Rightarrow> 'n stream_part list \<times> (error + 'n stream_state)" where
  "transform raw st chunk =
     (let out0 = (if raw then [Raw (rawValue chunk)] else []) in
      case chunk of
        Failure err _ \<Rightarrow> (out0 @ [ErrorPart err], Inr st)
      | Success v _ \<Rightarrow>
          (let (out1, st1) = emit_metadata v st;
               st2 = track_usage v st1
           in case chunk_choices v of
                [] \<Rightarrow> (out0 @ out1, Inl TypeError)
              | choice # _ \<Rightarrow>
                  (let (out2, st3) = emit_text (extractTextContent (content (delta choice))) st2;
                       st4 = track_finish (delta_finish_reason choice) st3
                   in (out0 @ out1 @ out2, Inr st4))))"

text \<open>
  The transformer fed with the chunks in order. An exception thrown by \<^verbatim>\<open>transform\<close>
  errors the stream: no later chunk is transformed.
\<close>

fun transform_all ::
  "bool \<Rightarrow> 'n stream_state \<Rightarrow> 'n parse_result list
     \<Rightarrow> 'n stream_part list \<times> (error + 'n stream_state)" where
  "transform_all raw st [] = ([], Inr st)"
| "transform_all raw st (chunk # chunks) =
     (case transform raw st chunk of
        (out, Inl e) \<Rightarrow> (out, Inl e)
      | (out, Inr st') \<Rightarrow>
          (case transform_all raw st' chunks of (outs, r) \<Rightarrow> (out @ outs, r)))"

text \<open>\<^verbatim>\<open>flush(controller)\<close>, called when the source ends and the stream has not errored.\<close>

definition flush :: "'n stream_state \<Rightarrow> 'n stream_part list" where
  "flush st =
     (if activeText st then [TextEnd ''0''] else []) @ [Finish (finishReason st) (usage st)]"

text \<open>
  The stream that \<^verbatim>\<open>pipeThrough\<close> returns: the parts enqueued, in order, and how the
  stream ends, closed after \<^verbatim>\<open>flush\<close> or errored by an exception of \<^verbatim>\<open>transform\<close>
  (then \<^verbatim>\<open>flush\<close> is never called).
\<close>

datatype stream_end = Closed | Errored error

record 'n part_stream =
  parts :: "'n stream_part list"
  ending :: stream_end

definition pipeThrough ::
  "warning list \<Rightarrow> bool \<Rightarrow> 'n parse_result list \<Rightarrow> 'n part_stream" where
  "pipeThrough warnings raw chunks =
     (case transform_all raw initial_state chunks of
        (outs, Inl e) \<Rightarrow> \<lparr>parts = StreamStart warnings # outs, ending = Errored e\<rparr>
      | (outs, Inr st) \<Rightarrow> \<lparr>parts = StreamStart warnings # outs @ flush st, ending = Closed\<rparr>)"

record 'n stream_result =
  stream :: "'n part_stream"
  stream_request :: "'n request_body"
  stream_response_headers :: "(string \<times> string) list"

text \<open>
  \<^verbatim>\<open>doStream\<close>. \<^verbatim>\<open>options.includeRawChunks\<close> is tested for truthiness. As in
  \<open>doGenerate\<close>, the second component lists the request bodies handed to the transport.
\<close>

definition doStream ::
  "fim_model
     \<Rightarrow> ('n request_body \<Rightarrow> error + ('n parse_result list, 'n) api_response)
     \<Rightarrow> 'n call_options \<Rightarrow> (error + 'n stream_result) \<times> 'n request_body list" where
  "doStream this post c =
     (case getArgs this c of
        Inl e \<Rightarrow> (Inl e, [])
      | Inr (args, warnings) \<Rightarrow>
          (let body = \<lparr>body_args = args, body_stream = Some True\<rparr> in
           case config_headers this of
             Inl e \<Rightarrow> (Inl e, [])
           | Inr hs \<Rightarrow>
               (case post body of
                  Inl e \<Rightarrow> (Inl e, [body])
                | Inr r \<Rightarrow>
                    (Inr \<lparr>stream =
                            pipeThrough warnings (includeRawChunks c = Some True) (api_value r),
                          stream_request = body,
                          stream_response_headers = responseHeaders r\<rparr>,
                     [body]))))"

section \<open>Notions used in the statements\<close>

subsection \<open>Prompts\<close>







subsection \<open>Content and stream parts\<close>

fun item_text :: "v2_content \<Rightarrow> string" where
  "item_text (TextItem t) = t"

text \<open>The deltas of the text-delta parts of a sequence, in order.\<close>

fun delta_texts :: "'n stream_part list \<Rightarrow> string list" where
  "delta_texts [] = []"
| "delta_texts (TextDelta i t # ps) = t # delta_texts ps"
| "delta_texts (_ # ps) = delta_texts ps"

text \<open>The parts that bracket and carry text, and the finish part.\<close>

fun is_span_part :: "'n stream_part \<Rightarrow> bool" where
  "is_span_part (TextStart i) = True"
| "is_span_part (TextDelta i t) = True"
| "is_span_part (TextEnd i) = True"
| "is_span_part (Finish f u) = True"
| "is_span_part _ = False"

fun is_finish :: "'n stream_part \<Rightarrow> bool" where
  "is_finish (Finish f u) = True"
| "is_finish _ = False"

fun is_error :: "'n stream_part \<Rightarrow> bool" where
  "is_error (ErrorPart e) = True"
| "is_error _ = False"

subsection \<open>Chunk sequences\<close>

text \<open>A chunk that failed to parse, or a parsed chunk with at least one choice.\<close>

fun has_choice :: "'n parse_result \<Rightarrow> bool" where
  "has_choice (Success v r) = (chunk_choices v \<noteq> [])"
| "has_choice (Failure e r) = True"

text \<open>A successfully parsed chunk that has a delta (a first choice).\<close>

fun parsed_delta :: "'n parse_result \<Rightarrow> bool" where
  "parsed_delta (Success v r) = (chunk_choices v \<noteq> [])"
| "parsed_delta (Failure e r) = False"

text \<open>
  The text extracted from a chunk: \<open>extractTextContent\<close> of the content of the first
  choice's delta, and the empty string when that is \<^verbatim>\<open>undefined\<close> or when there is no
  delta to extract from.
\<close>

fun delta_text :: "'n parse_result \<Rightarrow> string" where
  "delta_text (Success v r) =
     (case chunk_choices v of
        [] \<Rightarrow> []
      | choice # _ \<Rightarrow>
          (case extractTextContent (content (delta choice)) of None \<Rightarrow> [] | Some t \<Rightarrow> t))"
| "delta_text (Failure e r) = []"

definition nonempty_texts :: "'n parse_result list \<Rightarrow> string list" where
  "nonempty_texts cs = filter (\<lambda>t. t \<noteq> []) (map delta_text cs)"

text \<open>The usage records carried by the successfully parsed chunks, in order.\<close>

fun usage_records :: "'n parse_result list \<Rightarrow> 'n mistral_usage list" where
  "usage_records [] = []"
| "usage_records (Success v r # cs) =
     (case chunk_usage v of None \<Rightarrow> usage_records cs | Some u \<Rightarrow> u # usage_records cs)"
| "usage_records (Failure e r # cs) = usage_records cs"

definition counters :: "'n mistral_usage \<Rightarrow> 'n v2_usage" where
  "counters u =
     \<lparr>inputTokens = Some (prompt_tokens u),
      outputTokens = Some (completion_tokens u),
      totalTokens = Some (total_tokens u)\<rparr>"

text \<open>The last usage record seen, as counters; all three undefined when there is none.\<close>

definition last_usage :: "'n parse_result list \<Rightarrow> 'n v2_usage" where
  "last_usage cs =
     (if usage_records cs = []
      then \<lparr>inputTokens = None, outputTokens = None, totalTokens = None\<rparr>
      else counters (last (usage_records cs)))"

fun parse_failures :: "'n parse_result list \<Rightarrow> parse_error list" where
  "parse_failures [] = []"
| "parse_failures (Success v r # cs) = parse_failures cs"
| "parse_failures (Failure e r # cs) = e # parse_failures cs"

subsection \<open>Concrete inputs\<close>

text \<open>The model instance and the call of the repository's tests.\<close>

definition test_model :: fim_model where
  "test_model =
     \<lparr>modelId = ''mistral-small-latest'',
      provider = ''mistral.fim'',
      baseURL = ''https://api.mistral.ai/v1'',
      config_headers = Inr [(''Authorization'', ''Bearer test-api-key'')]\<rparr>"

definition test_call :: "prompt_message list \<Rightarrow> int call_options" where
  "test_call ms =
     \<lparr>prompt = ms, maxOutputTokens = None, temperature = None, topP = None,
      topK = None, frequencyPenalty = None, presencePenalty = None, stopSequences = None,
      responseFormat = None, seed = None, providerOptions = None, tools = None,
      toolChoice = None, includeRawChunks = None\<rparr>"

definition test_args :: "string \<Rightarrow> int args" where
  "test_args p =
     \<lparr>arg_model = ''mistral-small-latest'', arg_temperature = None, arg_top_p = None,
      arg_max_tokens = None, arg_stop = None, arg_random_seed = None, arg_prompt = p,
      arg_suffix = None, arg_min_tokens = None\<rparr>"


definition hi_response :: "(int chat_response, int) api_response" where
  "hi_response =
     \<lparr>responseHeaders = [],
      api_value =
        \<lparr>resp_id = Some ''16362f24e60340d0994dd205c267a43a'',
         resp_created = Some 1711113008,
         resp_model = Some ''mistral-small-latest'',
         resp_choices =
           [\<lparr>message = \<lparr>role = Some ''assistant'', content = Some (ContentString ''Hi''),
                        tool_calls = None\<rparr>,
             choice_index = 0, choice_finish_reason = Some ''stop''\<rparr>,
            \<lparr>message = \<lparr>role = Some ''assistant'', content = Some (ContentString ''Other''),
                        tool_calls = None\<rparr>,
             choice_index = 1, choice_finish_reason = Some ''length''\<rparr>],
         resp_usage = \<lparr>prompt_tokens = 4, completion_tokens = 1, total_tokens = 5\<rparr>\<rparr>,
      api_rawValue = JNull\<rparr>"

definition no_choice_response :: "(int chat_response, int) api_response" where
  "no_choice_response =
     \<lparr>responseHeaders = [],
      api_value =
        \<lparr>resp_id = None, resp_created = None, resp_model = None, resp_choices = [],
         resp_usage = \<lparr>prompt_tokens = 4, completion_tokens = 0, total_tokens = 4\<rparr>\<rparr>,
      api_rawValue = JNull\<rparr>"

text \<open>A parsed chunk whose first choice has the given delta content and finish reason.\<close>

definition text_chunk ::
  "int content option \<Rightarrow> string option \<Rightarrow> int mistral_usage option \<Rightarrow> int parse_result" where
  "text_chunk c fr u =
     Success
       \<lparr>chunk_id = Some ''53ff663126294946a6b7a4747b70597e'',
        chunk_created = Some 1750537996,
        chunk_model = Some ''mistral-small-latest'',
        chunk_choices =
          [\<lparr>delta = \<lparr>role = None, content = c, tool_calls = None\<rparr>,
            delta_finish_reason = fr, delta_index = 0\<rparr>],
        chunk_usage = u\<rparr>
       JNull"

text \<open>A parsed chunk with an empty \<^verbatim>\<open>choices\<close> list that carries a usage record.\<close>

definition usage_only_chunk :: "int parse_result" where
  "usage_only_chunk =
     Success
       \<lparr>chunk_id = None, chunk_created = None, chunk_model = None, chunk_choices = [],
        chunk_usage = Some \<lparr>prompt_tokens = 4, completion_tokens = 1, total_tokens = 5\<rparr>\<rparr>
       JNull"

definition bad_chunk :: "int parse_result" where
  "bad_chunk = Failure (JSONParseError ''Unexpected token'') (JString ''{'')"

text \<open>
  The chunks of the streaming test: an empty first delta, the texts \<^verbatim>\<open>Hello\<close>, a comma
  with a space, \<^verbatim>\<open>world!\<close>, and a last chunk with the finish reason and the usage.
\<close>

definition hello_chunks :: "int parse_result list" where
  "hello_chunks =
     [text_chunk (Some (ContentString '''')) None None,
      text_chunk (Some (ContentString ''Hello'')) None None,
      text_chunk (Some (ContentString '', '')) None None,
      text_chunk (Some (ContentString ''world!'')) None None,
      text_chunk (Some (ContentString '''')) (Some ''stop'')
        (Some \<lparr>prompt_tokens = 4, completion_tokens = 32, total_tokens = 36\<rparr>)]"

definition hello_response :: "(int parse_result list, int) api_response" where
  "hello_response = \<lparr>responseHeaders = [], api_value = hello_chunks, api_rawValue = JNull\<rparr>"

section \<open>The request builder\<close>

subsection \<open>Prompt extraction\<close>






lemma getArgs_test_call:
  "p \<noteq> [] \<Longrightarrow> extractUserPromptContent ms = Some p \<Longrightarrow>
   getArgs test_model (test_call ms) = Inr (test_args p, [])"
  by (simp add: getArgs_def test_model_def test_call_def test_args_def parseProviderOptions_def
      no_options_def getArgs_warnings_def unsupported_def)




subsection \<open>The empty prompt\<close>








subsection \<open>Unsupported settings\<close>

lemma count_unsupported:
  "count_list (unsupported x name) (UnsupportedSetting name') =
     (if x \<noteq> None \<and> name = name' then 1 else 0)"
  by (simp add: unsupported_def)

lemma getArgs_Inr_warnings:
  "getArgs this c = Inr (args, ws) \<Longrightarrow> ws = getArgs_warnings c"
  by (auto simp add: getArgs_def Let_def split: sum.splits option.splits if_splits)

lemma getArgs_ignores_unsupported:
  "map_sum id fst
     (getArgs this
        (c\<lparr>topK := k, frequencyPenalty := f, presencePenalty := p, stopSequences := s,
           responseFormat := r, tools := t, toolChoice := tc\<rparr>))
     = map_sum id fst (getArgs this c)"
  by (simp add: getArgs_def Let_def split: sum.splits option.splits)

text \<open>
  Claim C4. When the builder returns, its warning list holds exactly one
  unsupported-setting warning for each of the seven settings that is supplied non-null
  (and none for a setting that is not supplied), and the wire request does not depend on
  the seven settings: replacing them by any other values gives the same wire request.
\<close>

theorem unsupported_settings_warned_and_dropped:
  assumes "getArgs this c = Inr (args, ws)"
  shows "count_list ws (UnsupportedSetting ''topK'') = (if topK c \<noteq> None then 1 else 0) \<and>
         count_list ws (UnsupportedSetting ''frequencyPenalty'')
           = (if frequencyPenalty c \<noteq> None then 1 else 0) \<and>
         count_list ws (UnsupportedSetting ''presencePenalty'')
           = (if presencePenalty c \<noteq> None then 1 else 0) \<and>
         count_list ws (UnsupportedSetting ''stopSequences'')
           = (if stopSequences c \<noteq> None then 1 else 0) \<and>
         count_list ws (UnsupportedSetting ''responseFormat'')
           = (if responseFormat c \<noteq> None then 1 else 0) \<and>
         count_list ws (UnsupportedSetting ''tools'') = (if tools c \<noteq> None then 1 else 0) \<and>
         count_list ws (UnsupportedSetting ''toolChoice'')
           = (if toolChoice c \<noteq> None then 1 else 0) \<and>
         (\<exists>ws'. getArgs this
                  (c\<lparr>topK := k, frequencyPenalty := f, presencePenalty := p,
                     stopSequences := s, responseFormat := r, tools := t, toolChoice := tc\<rparr>)
                  = Inr (args, ws'))"
proof -
  have ws: "ws = getArgs_warnings c"
    using assms by (rule getArgs_Inr_warnings)
  have w1: "count_list ws (UnsupportedSetting ''topK'') = (if topK c \<noteq> None then 1 else 0)"
    by (simp add: ws getArgs_warnings_def count_unsupported)
  have w2: "count_list ws (UnsupportedSetting ''frequencyPenalty'')
              = (if frequencyPenalty c \<noteq> None then 1 else 0)"
    by (simp add: ws getArgs_warnings_def count_unsupported)
  have w3: "count_list ws (UnsupportedSetting ''presencePenalty'')
              = (if presencePenalty c \<noteq> None then 1 else 0)"
    by (simp add: ws getArgs_warnings_def count_unsupported)
  have w4: "count_list ws (UnsupportedSetting ''stopSequences'')
              = (if stopSequences c \<noteq> None then 1 else 0)"
    by (simp add: ws getArgs_warnings_def count_unsupported)
  have w5: "count_list ws (UnsupportedSetting ''responseFormat'')
              = (if responseFormat c \<noteq> None then 1 else 0)"
    by (simp add: ws getArgs_warnings_def count_unsupported)
  have w6: "count_list ws (UnsupportedSetting ''tools'') = (if tools c \<noteq> None then 1 else 0)"
    by (simp add: ws getArgs_warnings_def count_unsupported)
  have w7: "count_list ws (UnsupportedSetting ''toolChoice'')
              = (if toolChoice c \<noteq> None then 1 else 0)"
    by (simp add: ws getArgs_warnings_def count_unsupported)
  let ?c' = "c\<lparr>topK := k, frequencyPenalty := f, presencePenalty := p,
               stopSequences := s, responseFormat := r, tools := t, toolChoice := tc\<rparr>"
  have "map_sum id fst (getArgs this ?c') = Inr args"
    using assms by (simp add: getArgs_ignores_unsupported)
  then have w8: "\<exists>ws'. getArgs this ?c' = Inr (args, ws')"
    by (cases "getArgs this ?c'") auto
  from w1 w2 w3 w4 w5 w6 w7 w8 show ?thesis by blast
qed

theorem unsupported_settings_warned_and_dropped_witness:
  "getArgs test_model
     ((test_call [UserMessage [TextPart ''Hello'']])
        \<lparr>topK := Some 5, stopSequences := Some [''x''], toolChoice := Some AutoChoice\<rparr>)
     = Inr (test_args ''Hello'',
            [UnsupportedSetting ''topK'', UnsupportedSetting ''stopSequences'',
             UnsupportedSetting ''toolChoice'']) \<and>
   count_list
     [UnsupportedSetting ''topK'', UnsupportedSetting ''stopSequences'',
      UnsupportedSetting ''toolChoice''] (UnsupportedSetting ''topK'') = 1 \<and>
   count_list
     [UnsupportedSetting ''topK'', UnsupportedSetting ''stopSequences'',
      UnsupportedSetting ''toolChoice''] (UnsupportedSetting ''tools'') = 0 \<and>
   (\<exists>ws'. getArgs test_model
            ((test_call [UserMessage [TextPart ''Hello'']])
               \<lparr>topK := Some 7, stopSequences := None, toolChoice := Some AutoChoice\<rparr>)
            = Inr (test_args ''Hello'', ws'))"
proof -
  have g: "getArgs test_model
     ((test_call [UserMessage [TextPart ''Hello'']])
        \<lparr>topK := Some 5, stopSequences := Some [''x''], toolChoice := Some AutoChoice\<rparr>)
     = Inr (test_args ''Hello'',
            [UnsupportedSetting ''topK'', UnsupportedSetting ''stopSequences'',
             UnsupportedSetting ''toolChoice''])"
    by (simp add: getArgs_def test_model_def test_call_def test_args_def
        parseProviderOptions_def no_options_def getArgs_warnings_def unsupported_def)
  show ?thesis
    using unsupported_settings_warned_and_dropped
      [OF g, where k = "Some 7" and f = None and p = None and s = None and r = None
         and t = None and tc = "Some AutoChoice"] g
    by (simp add: test_call_def)
qed

section \<open>Content flattening\<close>

text \<open>
  Claim C8, as amended. Flattening a plain string returns that string unchanged, whether
  it is empty or not: for the empty string the result is the empty string, not
  \<^verbatim>\<open>undefined\<close>. Both callers test the length of the result afterwards, so that an
  empty string yields no content item and no stream part.
\<close>

theorem extractTextContent_string_unchanged:
  "extractTextContent (Some (ContentString s)) = Some s \<and>
   doGenerate_content (Some (ContentString s)) = (if s = [] then [] else [TextItem s]) \<and>
   fst (emit_text (extractTextContent (Some (ContentString []))) st) = []"
  by (simp add: emit_text_def)

text \<open>Claim C8 as stated fails at the empty string.\<close>

theorem extractTextContent_empty_string_counterexample:
  "extractTextContent (Some (ContentString '''' :: int content)) = Some '''' \<and>
   extractTextContent (Some (ContentString '''' :: int content)) \<noteq> None"
  by simp

lemma concat_push_text_parts:
  "concat (map item_text (push_text_parts ps)) = concat (text_parts ps)"
  by (induction ps rule: text_parts.induct) simp_all

lemma doGenerate_content_text:
  "concat (map item_text (doGenerate_content c)) =
     (case extractTextContent c of None \<Rightarrow> [] | Some t \<Rightarrow> t)"
proof (cases c)
  case None
  then show ?thesis by simp
next
  case (Some k)
  then show ?thesis
    by (cases k) (simp_all add: concat_push_text_parts)
qed

lemma emit_text_deltas:
  "concat (delta_texts (fst (emit_text x st))) = (case x of None \<Rightarrow> [] | Some t \<Rightarrow> t)"
  by (cases x) (simp_all add: emit_text_def)

text \<open>
  Claim C9. For every content value, the texts of the items that the synchronous parser
  emits concatenate to the string that \<open>extractTextContent\<close> returns for the streaming
  path (the empty text where it returns \<^verbatim>\<open>undefined\<close>), and to the text of the
  text-delta parts that the streaming transform emits for that value. The synchronous
  parser has its own loop for a content list; the two agree all the same.
\<close>

theorem sync_and_stream_extract_same_text:
  "concat (map item_text (doGenerate_content c)) =
     (case extractTextContent c of None \<Rightarrow> [] | Some t \<Rightarrow> t) \<and>
   concat (delta_texts (fst (emit_text (extractTextContent c) st))) =
     concat (map item_text (doGenerate_content c))"
  by (simp add: doGenerate_content_text emit_text_deltas)

section \<open>The synchronous parser\<close>

lemma doGenerate_success:
  assumes "getArgs this c = Inr (args, ws)" and "config_headers this = Inr hs"
    and "post \<lparr>body_args = args, body_stream = None\<rparr> = Inr r"
  shows "doGenerate this post c =
           (doGenerate_result \<lparr>body_args = args, body_stream = None\<rparr> ws r,
            [\<lparr>body_args = args, body_stream = None\<rparr>])"
  using assms by (simp add: doGenerate_def Let_def)

lemma config_headers_test_model:
  "config_headers test_model = Inr [(''Authorization'', ''Bearer test-api-key'')]"
  by (simp add: test_model_def)

text \<open>
  Claim C5. For a response whose first choice has the message content \<^verbatim>\<open>"Hi"\<close> and the
  finish reason \<^verbatim>\<open>"stop"\<close>, with the usage 4, 1, 5, \<open>doGenerate\<close> returns a result with
  the content \<^verbatim>\<open>[{type: "text", text: "Hi"}]\<close>, the finish reason stop and the usage
  4, 1, 5. The other choices are arbitrary and the result is the one of the response
  cut down to its first choice: only \<^verbatim>\<open>choices[0]\<close> is consulted.
\<close>

theorem doGenerate_hi_example:
  assumes "resp_choices (api_value r) = choice # others"
    and "content (message choice) = Some (ContentString ''Hi'')"
    and "choice_finish_reason choice = Some ''stop''"
    and "resp_usage (api_value r)
           = \<lparr>prompt_tokens = 4, completion_tokens = 1, total_tokens = 5\<rparr>"
    and "getArgs this c = Inr (args, ws)"
    and "config_headers this = Inr hs"
    and "post \<lparr>body_args = args, body_stream = None\<rparr> = Inr r"
  shows "\<exists>res. doGenerate this post c
                 = (Inr res, [\<lparr>body_args = args, body_stream = None\<rparr>]) \<and>
           result_content res = [TextItem ''Hi''] \<and>
           result_finishReason res = FinishStop \<and>
           result_usage res
             = \<lparr>inputTokens = Some 4, outputTokens = Some 1, totalTokens = Some 5\<rparr> \<and>
           doGenerate_result \<lparr>body_args = args, body_stream = None\<rparr> ws
             (r\<lparr>api_value := (api_value r)\<lparr>resp_choices := [choice]\<rparr>\<rparr>) = Inr res"
  using assms doGenerate_success [of this c args ws hs post r]
  by (simp add: doGenerate_result_def mapMistralFinishReason_def Let_def)

theorem doGenerate_hi_example_witness:
  "\<exists>res. doGenerate test_model (\<lambda>b. Inr hi_response)
            (test_call [UserMessage [TextPart ''Hello'']])
          = (Inr res, [\<lparr>body_args = test_args ''Hello'', body_stream = None\<rparr>]) \<and>
     result_content res = [TextItem ''Hi''] \<and>
     result_finishReason res = FinishStop \<and>
     result_usage res
       = \<lparr>inputTokens = Some 4, outputTokens = Some 1, totalTokens = Some 5\<rparr>"
proof -
  have g: "getArgs test_model (test_call [UserMessage [TextPart ''Hello'']])
             = Inr (test_args ''Hello'', [])"
    by (simp add: getArgs_test_call)
  show ?thesis
    using doGenerate_hi_example
      [of hi_response _ _ test_model "test_call [UserMessage [TextPart ''Hello'']]" _ _ _
          "\<lambda>b. Inr hi_response", OF _ _ _ _ g config_headers_test_model]
    by (simp add: hi_response_def) blast
qed

section \<open>The streaming state machine\<close>

subsection \<open>One call of the transform\<close>

lemma transform_Failure:
  "transform raw st (Failure e r) = ((if raw then [Raw r] else []) @ [ErrorPart e], Inr st)"
  by (simp add: transform_def)

lemma transform_no_choice:
  "chunk_choices v = [] \<Longrightarrow>
   transform raw st (Success v r) =
     ((if raw then [Raw r] else []) @ fst (emit_metadata v st), Inl TypeError)"
  by (simp add: transform_def Let_def split: prod.splits)

lemma transform_throws_iff:
  "(\<exists>out e. transform raw st c = (out, Inl e)) \<longleftrightarrow> \<not> has_choice c"
  by (cases c) (auto simp add: transform_def Let_def split: prod.splits list.splits)

lemma transform_error_is_TypeError:
  "transform raw st c = (out, Inl e) \<Longrightarrow> e = TypeError"
  by (cases c) (auto simp add: transform_def Let_def split: prod.splits list.splits)

lemma transform_thrown_parts:
  "transform raw st c = (out, Inl e) \<Longrightarrow> filter is_span_part out = []"
  by (cases c)
     (auto simp add: transform_def Let_def emit_metadata_def
        split: prod.splits list.splits if_splits)

lemma transform_step:
  assumes "transform raw st c = (out, Inr st')"
  shows "activeText st' = (activeText st \<or> delta_text c \<noteq> [])"
    and "filter is_span_part out =
           (if delta_text c = [] then []
            else (if activeText st then [] else [TextStart ''0'']) @
                 [TextDelta ''0'' (delta_text c)])"
    and "usage st' =
           (if usage_records [c] = [] then usage st else counters (last (usage_records [c])))"
    and "filter is_error out = map ErrorPart (parse_failures [c])"
    and "filter is_finish out = []"
  using assms
  by (cases c;
      auto simp add: transform_def Let_def emit_metadata_def track_usage_def emit_text_def
        track_finish_def counters_def
        split: prod.splits list.splits option.splits if_splits)+

subsection \<open>The whole sequence\<close>

lemma transform_all_Cons_Inr:
  assumes "transform_all raw st (c # cs) = (outs, Inr st')"
  obtains out outs' st1 where "transform raw st c = (out, Inr st1)"
    and "transform_all raw st1 cs = (outs', Inr st')" and "outs = out @ outs'"
  using assms by (auto split: prod.splits sum.splits)

lemma transform_all_total:
  "list_all has_choice cs \<Longrightarrow> \<exists>outs st'. transform_all raw st cs = (outs, Inr st')"
proof (induction cs arbitrary: st)
  case Nil
  then show ?case by simp
next
  case (Cons c cs)
  obtain out res where t: "transform raw st c = (out, res)"
    by (cases "transform raw st c")
  from Cons.prems have "has_choice c" by simp
  with t obtain st1 where s: "res = Inr st1"
    using transform_throws_iff [of raw st c] by (cases res) auto
  from Cons.prems have "list_all has_choice cs" by simp
  then obtain outs st' where "transform_all raw st1 cs = (outs, Inr st')"
    using Cons.IH by blast
  with t s show ?case by simp
qed

lemma transform_all_active:
  "transform_all raw st cs = (outs, Inr st') \<Longrightarrow>
   activeText st' = (activeText st \<or> nonempty_texts cs \<noteq> [])"
proof (induction cs arbitrary: st outs)
  case Nil
  then show ?case by (simp add: nonempty_texts_def)
next
  case (Cons c cs)
  from Cons.prems obtain out outs' st1 where t: "transform raw st c = (out, Inr st1)"
    and r: "transform_all raw st1 cs = (outs', Inr st')"
    by (rule transform_all_Cons_Inr)
  from Cons.IH [OF r] transform_step(1) [OF t] show ?case
    by (auto simp add: nonempty_texts_def)
qed

lemma transform_all_spans:
  "transform_all raw st cs = (outs, Inr st') \<Longrightarrow>
   filter is_span_part outs =
     (if activeText st \<or> nonempty_texts cs = [] then [] else [TextStart ''0'']) @
     map (TextDelta ''0'') (nonempty_texts cs)"
proof (induction cs arbitrary: st outs)
  case Nil
  then show ?case by (simp add: nonempty_texts_def)
next
  case (Cons c cs)
  from Cons.prems obtain out outs' st1 where t: "transform raw st c = (out, Inr st1)"
    and r: "transform_all raw st1 cs = (outs', Inr st')" and o: "outs = out @ outs'"
    by (rule transform_all_Cons_Inr)
  from Cons.IH [OF r] transform_step(1,2) [OF t] o show ?case
    by (auto simp add: nonempty_texts_def)
qed

lemma transform_all_usage:
  "transform_all raw st cs = (outs, Inr st') \<Longrightarrow>
   usage st' =
     (if usage_records cs = [] then usage st else counters (last (usage_records cs)))"
proof (induction cs arbitrary: st outs)
  case Nil
  then show ?case by simp
next
  case (Cons c cs)
  from Cons.prems obtain out outs' st1 where t: "transform raw st c = (out, Inr st1)"
    and r: "transform_all raw st1 cs = (outs', Inr st')"
    by (rule transform_all_Cons_Inr)
  from Cons.IH [OF r] transform_step(3) [OF t] show ?case
    by (cases c) (auto split: option.splits)
qed

lemma transform_all_errors:
  "transform_all raw st cs = (outs, Inr st') \<Longrightarrow>
   filter is_error outs = map ErrorPart (parse_failures cs) \<and> filter is_finish outs = []"
proof (induction cs arbitrary: st outs)
  case Nil
  then show ?case by simp
next
  case (Cons c cs)
  from Cons.prems obtain out outs' st1 where t: "transform raw st c = (out, Inr st1)"
    and r: "transform_all raw st1 cs = (outs', Inr st')" and o: "outs = out @ outs'"
    by (rule transform_all_Cons_Inr)
  from Cons.IH [OF r] transform_step(4,5) [OF t] o show ?case
    by (cases c) auto
qed

lemma transform_all_throws:
  "\<not> list_all has_choice cs \<Longrightarrow>
   \<exists>outs. transform_all raw st cs = (outs, Inl TypeError) \<and> filter is_finish outs = []"
proof (induction cs arbitrary: st)
  case Nil
  then show ?case by simp
next
  case (Cons c cs)
  obtain out res where t: "transform raw st c = (out, res)"
    by (cases "transform raw st c")
  show ?case
  proof (cases res)
    case (Inl e)
    with t have "e = TypeError"
      by (simp add: transform_error_is_TypeError)
    moreover have "filter is_span_part out = []"
      using t Inl by (simp add: transform_thrown_parts)
    then have "filter is_finish out = []"
      by (induction out) (auto split: if_splits elim: is_finish.elims)
    ultimately show ?thesis
      using t Inl by simp
  next
    case (Inr st1)
    with t have t': "transform raw st c = (out, Inr st1)"
      by simp
    then have "has_choice c"
      using transform_throws_iff [of raw st c] by auto
    with Cons.prems have "\<not> list_all has_choice cs"
      by simp
    then obtain outs where "transform_all raw st1 cs = (outs, Inl TypeError)"
      and "filter is_finish outs = []"
      using Cons.IH by blast
    with t' transform_step(5) [OF t'] show ?thesis
      by simp
  qed
qed

lemma transform_all_Failure:
  "transform_all raw st (Failure e r # cs) =
     (case transform_all raw st cs of
        (outs, res) \<Rightarrow> ((if raw then [Raw r] else []) @ [ErrorPart e] @ outs, res))"
  by (simp add: transform_Failure split: prod.splits)

subsection \<open>The piped stream\<close>

lemma pipeThrough_closed:
  assumes "list_all has_choice cs"
  obtains outs st' where "transform_all raw initial_state cs = (outs, Inr st')"
    and "pipeThrough ws raw cs
           = \<lparr>parts = StreamStart ws # outs @ flush st', ending = Closed\<rparr>"
proof -
  from assms obtain outs st' where t: "transform_all raw initial_state cs = (outs, Inr st')"
    using transform_all_total by blast
  then have "pipeThrough ws raw cs
               = \<lparr>parts = StreamStart ws # outs @ flush st', ending = Closed\<rparr>"
    by (simp add: pipeThrough_def)
  with t show ?thesis
    by (rule that)
qed

lemma pipeThrough_finish:
  assumes "list_all has_choice cs"
  shows "\<exists>fr. ending (pipeThrough ws raw cs) = Closed \<and>
           filter is_finish (parts (pipeThrough ws raw cs)) = [Finish fr (last_usage cs)] \<and>
           last (parts (pipeThrough ws raw cs)) = Finish fr (last_usage cs) \<and>
           filter is_error (parts (pipeThrough ws raw cs)) = map ErrorPart (parse_failures cs)"
proof -
  from assms obtain outs st' where t: "transform_all raw initial_state cs = (outs, Inr st')"
    and p: "pipeThrough ws raw cs
              = \<lparr>parts = StreamStart ws # outs @ flush st', ending = Closed\<rparr>"
    by (rule pipeThrough_closed)
  have u: "usage st' = last_usage cs"
    using transform_all_usage [OF t] by (simp add: last_usage_def initial_state_def)
  have e: "filter is_error outs = map ErrorPart (parse_failures cs)"
    and f: "filter is_finish outs = []"
    using transform_all_errors [OF t] by simp_all
  show ?thesis
    using p u e f by (simp add: flush_def)
qed

lemma pipeThrough_errored:
  assumes "\<not> list_all has_choice cs"
  shows "ending (pipeThrough ws raw cs) = Errored TypeError \<and>
         filter is_finish (parts (pipeThrough ws raw cs)) = []"
proof -
  from assms obtain outs where "transform_all raw initial_state cs = (outs, Inl TypeError)"
    and "filter is_finish outs = []"
    using transform_all_throws by blast
  then show ?thesis
    by (simp add: pipeThrough_def)
qed

lemma concat_nonempty_texts:
  "concat (nonempty_texts cs) = concat (map delta_text cs)"
  by (induction cs) (simp_all add: nonempty_texts_def)

lemma parsed_delta_has_choice:
  "list_all parsed_delta cs \<Longrightarrow> list_all has_choice cs"
  by (induction cs rule: parse_failures.induct) simp_all

lemma pipeThrough_spans:
  assumes "list_all has_choice cs" and "nonempty_texts cs \<noteq> []"
  shows "\<exists>fr u. ending (pipeThrough ws raw cs) = Closed \<and>
           filter is_span_part (parts (pipeThrough ws raw cs)) =
             TextStart ''0'' # map (TextDelta ''0'') (nonempty_texts cs) @
             [TextEnd ''0'', Finish fr u] \<and>
           last (parts (pipeThrough ws raw cs)) = Finish fr u"
proof -
  from assms(1) obtain outs st' where t: "transform_all raw initial_state cs = (outs, Inr st')"
    and p: "pipeThrough ws raw cs
              = \<lparr>parts = StreamStart ws # outs @ flush st', ending = Closed\<rparr>"
    by (rule pipeThrough_closed)
  have a: "activeText st'"
    using transform_all_active [OF t] assms(2) by simp
  have s: "filter is_span_part outs
             = TextStart ''0'' # map (TextDelta ''0'') (nonempty_texts cs)"
    using transform_all_spans [OF t] assms(2) by (simp add: initial_state_def)
  show ?thesis
    using p a s by (simp add: flush_def)
qed

lemma doStream_success:
  assumes "getArgs this c = Inr (args, ws)" and "config_headers this = Inr hs"
    and "post \<lparr>body_args = args, body_stream = Some True\<rparr> = Inr r"
  shows "doStream this post c =
           (Inr \<lparr>stream = pipeThrough ws (includeRawChunks c = Some True) (api_value r),
                 stream_request = \<lparr>body_args = args, body_stream = Some True\<rparr>,
                 stream_response_headers = responseHeaders r\<rparr>,
            [\<lparr>body_args = args, body_stream = Some True\<rparr>])"
  using assms by (simp add: doStream_def Let_def)

lemma transform_no_finish:
  "filter is_finish (fst (transform raw st c)) = []"
  by (cases c)
     (auto simp add: transform_def Let_def emit_metadata_def emit_text_def
        split: prod.splits list.splits option.splits if_splits)

lemma transform_all_no_finish:
  "filter is_finish (fst (transform_all raw st cs)) = []"
proof (induction cs arbitrary: st)
  case Nil
  then show ?case by simp
next
  case (Cons c cs)
  obtain out res where t: "transform raw st c = (out, res)"
    by (cases "transform raw st c")
  with transform_no_finish [of raw st c] have o: "filter is_finish out = []"
    by simp
  show ?case
  proof (cases res)
    case (Inl e)
    with t o show ?thesis by simp
  next
    case (Inr st1)
    obtain outs r where a: "transform_all raw st1 cs = (outs, r)"
      by (cases "transform_all raw st1 cs")
    with Cons.IH [of st1] have "filter is_finish outs = []"
      by simp
    with t o Inr a show ?thesis by simp
  qed
qed

lemma pipeThrough_by_state:
  "ending (pipeThrough ws raw cs) =
     (case snd (transform_all raw initial_state cs) of
        Inl e \<Rightarrow> Errored e
      | Inr st' \<Rightarrow> Closed) \<and>
   filter is_finish (parts (pipeThrough ws raw cs)) =
     (case snd (transform_all raw initial_state cs) of
        Inl e \<Rightarrow> []
      | Inr st' \<Rightarrow> [Finish (finishReason st') (usage st')])"
  using transform_all_no_finish [of raw initial_state cs]
  by (auto simp add: pipeThrough_def flush_def split: prod.splits sum.splits)

lemma failure_keeps_state:
  "snd (transform_all raw st (before @ Failure e r # after)) =
   snd (transform_all raw st (before @ after))"
proof (induction before arbitrary: st)
  case Nil
  then show ?case
    by (simp add: transform_Failure split: prod.splits)
next
  case (Cons c cs)
  obtain out res where t: "transform raw st c = (out, res)"
    by (cases "transform raw st c")
  show ?case
  proof (cases res)
    case (Inl x)
    with t show ?thesis by simp
  next
    case (Inr st1)
    with t Cons.IH [of st1] show ?thesis
      by (auto split: prod.splits)
  qed
qed

lemma parse_failures_append:
  "parse_failures (xs @ ys) = parse_failures xs @ parse_failures ys"
  by (induction xs rule: parse_failures.induct) simp_all

subsection \<open>Properties of the stream\<close>

text \<open>
  Claim C1. When the transport delivers successfully parsed delta chunks whose extracted
  texts concatenate to a non-empty string \<open>S\<close>, the stream that \<open>doStream\<close> returns closes,
  and its text and finish parts are, in this order: one text-start with id \<^verbatim>\<open>"0"\<close>, the
  text-delta parts with id \<^verbatim>\<open>"0"\<close> (at least one, one per non-empty extracted text, with
  deltas that concatenate to \<open>S\<close>), one text-end, one finish part, which is the last part
  of the stream.
\<close>

theorem doStream_brackets_text:
  assumes "getArgs this c = Inr (args, ws)"
    and "config_headers this = Inr hs"
    and "post \<lparr>body_args = args, body_stream = Some True\<rparr> = Inr r"
    and "list_all parsed_delta (api_value r)"
    and "concat (map delta_text (api_value r)) = S"
    and "S \<noteq> []"
  shows "\<exists>res fr u.
           doStream this post c = (Inr res, [\<lparr>body_args = args, body_stream = Some True\<rparr>]) \<and>
           ending (stream res) = Closed \<and>
           filter is_span_part (parts (stream res)) =
             TextStart ''0'' # map (TextDelta ''0'') (nonempty_texts (api_value r)) @
             [TextEnd ''0'', Finish fr u] \<and>
           nonempty_texts (api_value r) \<noteq> [] \<and>
           concat (nonempty_texts (api_value r)) = S \<and>
           last (parts (stream res)) = Finish fr u"
proof -
  have n: "concat (nonempty_texts (api_value r)) = S"
    using assms(5) by (simp add: concat_nonempty_texts)
  with assms(6) have ne: "nonempty_texts (api_value r) \<noteq> []"
    by auto
  have hc: "list_all has_choice (api_value r)"
    using assms(4) by (rule parsed_delta_has_choice)
  from pipeThrough_spans [OF hc ne, of ws "includeRawChunks c = Some True"]
  obtain fr u where
    "ending (pipeThrough ws (includeRawChunks c = Some True) (api_value r)) = Closed"
    "filter is_span_part
       (parts (pipeThrough ws (includeRawChunks c = Some True) (api_value r))) =
       TextStart ''0'' # map (TextDelta ''0'') (nonempty_texts (api_value r)) @
       [TextEnd ''0'', Finish fr u]"
    "last (parts (pipeThrough ws (includeRawChunks c = Some True) (api_value r)))
       = Finish fr u"
    by blast
  with n ne doStream_success [of this c args ws hs post r, OF assms(1-3)]
  show ?thesis
    by simp
qed

theorem doStream_brackets_text_witness:
  "list_all parsed_delta hello_chunks \<and>
   concat (map delta_text hello_chunks) = ''Hello, world!'' \<and>
   (\<exists>res fr u.
      doStream test_model (\<lambda>b. Inr hello_response) (test_call [UserMessage [TextPart ''Hello'']])
        = (Inr res, [\<lparr>body_args = test_args ''Hello'', body_stream = Some True\<rparr>]) \<and>
      filter is_span_part (parts (stream res)) =
        [TextStart ''0'', TextDelta ''0'' ''Hello'', TextDelta ''0'' '', '',
         TextDelta ''0'' ''world!'', TextEnd ''0'', Finish fr u])"
proof -
  have g: "getArgs test_model (test_call [UserMessage [TextPart ''Hello'']])
             = Inr (test_args ''Hello'', [])"
    by (simp add: getArgs_test_call)
  have p: "(\<lambda>b. Inr hello_response) \<lparr>body_args = test_args ''Hello'', body_stream = Some True\<rparr>
             = Inr hello_response"
    by simp
  have d: "list_all parsed_delta (api_value hello_response)"
    by (simp add: hello_response_def hello_chunks_def text_chunk_def)
  have t: "concat (map delta_text (api_value hello_response)) = ''Hello, world!''"
    by (simp add: hello_response_def hello_chunks_def text_chunk_def)
  have n: "nonempty_texts (api_value hello_response) = [''Hello'', '', '', ''world!'']"
    by (simp add: nonempty_texts_def hello_response_def hello_chunks_def text_chunk_def)
  from doStream_brackets_text [OF g config_headers_test_model p d t]
  show ?thesis
    using d t n by (simp add: hello_response_def) blast
qed

text \<open>
  Claim C6, as amended. For every chunk sequence in which each successfully parsed chunk
  has at least one choice, the stream closes with exactly one finish part, its last part,
  and the usage of that part is the last usage record seen on a successfully parsed
  chunk; all three counters are undefined when no chunk carried a usage record.
\<close>

theorem finish_carries_last_usage:
  assumes "list_all has_choice cs"
  shows "\<exists>fr. ending (pipeThrough ws raw cs) = Closed \<and>
           filter is_finish (parts (pipeThrough ws raw cs)) = [Finish fr (last_usage cs)] \<and>
           last (parts (pipeThrough ws raw cs)) = Finish fr (last_usage cs) \<and>
           (usage_records cs = [] \<longrightarrow>
              last_usage cs = \<lparr>inputTokens = None, outputTokens = None, totalTokens = None\<rparr>)"
  using pipeThrough_finish [OF assms, of ws raw] by (auto simp add: last_usage_def)

theorem finish_carries_last_usage_witness:
  "list_all has_choice hello_chunks \<and>
   (\<exists>fr. filter is_finish (parts (pipeThrough [] False hello_chunks)) =
           [Finish fr \<lparr>inputTokens = Some 4, outputTokens = Some 32, totalTokens = Some 36\<rparr>])"
proof -
  have h: "list_all has_choice hello_chunks"
    by (simp add: hello_chunks_def text_chunk_def)
  have u: "last_usage hello_chunks =
             \<lparr>inputTokens = Some 4, outputTokens = Some 32, totalTokens = Some 36\<rparr>"
    by (simp add: last_usage_def counters_def hello_chunks_def text_chunk_def)
  from finish_carries_last_usage [OF h, of "[]" False] show ?thesis
    using h u by auto
qed

text \<open>
  Claim C6 as stated fails: a parsed chunk with an empty \<^verbatim>\<open>choices\<close> list carries a usage
  record, the transform throws on it after recording the usage, the stream is errored and
  has no finish part at all.
\<close>

theorem usage_only_chunk_no_finish_counterexample:
  "usage_records [usage_only_chunk]
     = [\<lparr>prompt_tokens = 4, completion_tokens = 1, total_tokens = 5\<rparr>] \<and>
   ending (pipeThrough [] False [usage_only_chunk]) = Errored TypeError \<and>
   filter is_finish (parts (pipeThrough [] False [usage_only_chunk])) = []"
  by (simp add: usage_only_chunk_def pipeThrough_def transform_no_choice emit_metadata_def
      initial_state_def getResponseMetadata_def)

text \<open>
  Claim C7, as amended. For a chunk that fails to parse the transform enqueues the raw
  part, when raw passthrough is requested, and then one error part, and leaves the whole
  state (\<open>isFirstChunk\<close>, \<open>activeText\<close>, \<open>finishReason\<close>, \<open>usage\<close>) as it was; the chunks
  after it are processed from that same state; the failed chunk changes neither how the
  stream ends nor its finish part. When every successfully parsed chunk of the sequence
  has at least one choice, the stream closes with exactly one finish part, its last part,
  and it holds exactly one error part for each failed chunk.
\<close>

theorem failed_chunk_is_isolated:
  "transform raw st (Failure e r) = ((if raw then [Raw r] else []) @ [ErrorPart e], Inr st) \<and>
   transform_all raw st (Failure e r # after) =
     (case transform_all raw st after of
        (outs, res) \<Rightarrow> ((if raw then [Raw r] else []) @ [ErrorPart e] @ outs, res)) \<and>
   ending (pipeThrough ws raw (before @ Failure e r # after))
     = ending (pipeThrough ws raw (before @ after)) \<and>
   filter is_finish (parts (pipeThrough ws raw (before @ Failure e r # after)))
     = filter is_finish (parts (pipeThrough ws raw (before @ after))) \<and>
   (list_all has_choice (before @ after) \<longrightarrow>
      (\<exists>fr u.
         ending (pipeThrough ws raw (before @ Failure e r # after)) = Closed \<and>
         filter is_finish (parts (pipeThrough ws raw (before @ Failure e r # after)))
           = [Finish fr u] \<and>
         last (parts (pipeThrough ws raw (before @ Failure e r # after))) = Finish fr u \<and>
         filter is_error (parts (pipeThrough ws raw (before @ Failure e r # after)))
           = map ErrorPart (parse_failures before @ e # parse_failures after)))"
proof (intro conjI impI)
  show "transform raw st (Failure e r)
          = ((if raw then [Raw r] else []) @ [ErrorPart e], Inr st)"
    by (rule transform_Failure)
next
  show "transform_all raw st (Failure e r # after) =
     (case transform_all raw st after of
        (outs, res) \<Rightarrow> ((if raw then [Raw r] else []) @ [ErrorPart e] @ outs, res))"
    by (rule transform_all_Failure)
next
  show "ending (pipeThrough ws raw (before @ Failure e r # after))
          = ending (pipeThrough ws raw (before @ after))"
    by (simp add: pipeThrough_by_state failure_keeps_state)
next
  show "filter is_finish (parts (pipeThrough ws raw (before @ Failure e r # after)))
          = filter is_finish (parts (pipeThrough ws raw (before @ after)))"
    by (simp add: pipeThrough_by_state failure_keeps_state)
next
  assume "list_all has_choice (before @ after)"
  then have "list_all has_choice (before @ Failure e r # after)"
    by simp
  from pipeThrough_finish [OF this, of ws raw]
  show "\<exists>fr u.
         ending (pipeThrough ws raw (before @ Failure e r # after)) = Closed \<and>
         filter is_finish (parts (pipeThrough ws raw (before @ Failure e r # after)))
           = [Finish fr u] \<and>
         last (parts (pipeThrough ws raw (before @ Failure e r # after))) = Finish fr u \<and>
         filter is_error (parts (pipeThrough ws raw (before @ Failure e r # after)))
           = map ErrorPart (parse_failures before @ e # parse_failures after)"
    by (auto simp add: parse_failures_append)
qed

theorem failed_chunk_is_isolated_witness:
  "list_all has_choice
     ([text_chunk (Some (ContentString ''Hello'')) None None] @
      [text_chunk (Some (ContentString '' world'')) (Some ''stop'') None]) \<and>
   parts (pipeThrough [] True
     ([text_chunk (Some (ContentString ''Hello'')) None None] @
      Failure (JSONParseError ''Unexpected token'') (JString ''{'') #
      [text_chunk (Some (ContentString '' world'')) (Some ''stop'') None])) =
     [StreamStart [],
      Raw JNull,
      ResponseMetadata
        \<lparr>meta_id = Some ''53ff663126294946a6b7a4747b70597e'',
         meta_modelId = Some ''mistral-small-latest'',
         meta_timestamp = Some (DateOfSeconds 1750537996)\<rparr>,
      TextStart ''0'', TextDelta ''0'' ''Hello'',
      Raw (JString ''{''), ErrorPart (JSONParseError ''Unexpected token''),
      Raw JNull, TextDelta ''0'' '' world'', TextEnd ''0'',
      Finish FinishStop \<lparr>inputTokens = None, outputTokens = None, totalTokens = None\<rparr>] \<and>
   (\<exists>fr u.
      filter is_finish (parts (pipeThrough [] True
        ([text_chunk (Some (ContentString ''Hello'')) None None] @
         Failure (JSONParseError ''Unexpected token'') (JString ''{'') #
         [text_chunk (Some (ContentString '' world'')) (Some ''stop'') None])))
        = [Finish fr u])"
proof -
  have h: "list_all has_choice
     ([text_chunk (Some (ContentString ''Hello'')) None None] @
      [text_chunk (Some (ContentString '' world'')) (Some ''stop'') None])"
    by (simp add: text_chunk_def)
  have p: "parts (pipeThrough [] True
     ([text_chunk (Some (ContentString ''Hello'')) None None] @
      Failure (JSONParseError ''Unexpected token'') (JString ''{'') #
      [text_chunk (Some (ContentString '' world'')) (Some ''stop'') None])) =
     [StreamStart [],
      Raw JNull,
      ResponseMetadata
        \<lparr>meta_id = Some ''53ff663126294946a6b7a4747b70597e'',
         meta_modelId = Some ''mistral-small-latest'',
         meta_timestamp = Some (DateOfSeconds 1750537996)\<rparr>,
      TextStart ''0'', TextDelta ''0'' ''Hello'',
      Raw (JString ''{''), ErrorPart (JSONParseError ''Unexpected token''),
      Raw JNull, TextDelta ''0'' '' world'', TextEnd ''0'',
      Finish FinishStop \<lparr>inputTokens = None, outputTokens = None, totalTokens = None\<rparr>]"
    by (simp add: pipeThrough_def transform_def text_chunk_def initial_state_def
        emit_metadata_def track_usage_def emit_text_def track_finish_def flush_def
        getResponseMetadata_def mapMistralFinishReason_def Let_def)
  from failed_chunk_is_isolated
    [of True _ "JSONParseError ''Unexpected token''" "JString ''{''"
        "[text_chunk (Some (ContentString '' world'')) (Some ''stop'') None]" "[]"
        "[text_chunk (Some (ContentString ''Hello'')) None None]"]
  have "\<exists>fr u.
      filter is_finish (parts (pipeThrough [] True
        ([text_chunk (Some (ContentString ''Hello'')) None None] @
         Failure (JSONParseError ''Unexpected token'') (JString ''{'') #
         [text_chunk (Some (ContentString '' world'')) (Some ''stop'') None])))
        = [Finish fr u]"
    using h by blast
  with h p show ?thesis
    by blast
qed

text \<open>
  Claim C7 as stated fails: after a chunk that fails to parse, a parsed chunk with an
  empty \<^verbatim>\<open>choices\<close> list makes the transform throw; the stream is errored and has no
  finish part.
\<close>

theorem failed_then_no_choice_counterexample:
  "parts (pipeThrough [] False [bad_chunk, usage_only_chunk]) =
     [StreamStart [], ErrorPart (JSONParseError ''Unexpected token''),
      ResponseMetadata \<lparr>meta_id = None, meta_modelId = None, meta_timestamp = None\<rparr>] \<and>
   ending (pipeThrough [] False [bad_chunk, usage_only_chunk]) = Errored TypeError \<and>
   filter is_finish (parts (pipeThrough [] False [bad_chunk, usage_only_chunk])) = []"
  by (simp add: bad_chunk_def usage_only_chunk_def pipeThrough_def transform_Failure
      transform_no_choice emit_metadata_def initial_state_def getResponseMetadata_def)

text \<open>
  Claim C10. A response with an empty \<^verbatim>\<open>choices\<close> list is a value of the response
  schema, and \<open>doGenerate\<close> gives no result for it: reading \<^verbatim>\<open>choices[0].message\<close>
  throws, after the network call. A parsed chunk with an empty \<^verbatim>\<open>choices\<close> list makes
  the transform throw as well: the parts enqueued before the throw are the raw part (when
  requested) and the metadata part (on the first chunk), no text part is among them, and
  a stream that meets such a chunk is errored and has no finish part.
\<close>

theorem empty_choices_throw:
  "(resp_choices (api_value r) = [] \<longrightarrow>
      doGenerate_result body ws r = Inl TypeError \<and>
      (getArgs this c = Inr (args, ws) \<and> config_headers this = Inr hs \<and>
       post \<lparr>body_args = args, body_stream = None\<rparr> = Inr r \<longrightarrow>
         doGenerate this post c
           = (Inl TypeError, [\<lparr>body_args = args, body_stream = None\<rparr>]))) \<and>
   (chunk_choices v = [] \<longrightarrow>
      transform raw st (Success v rv)
        = ((if raw then [Raw rv] else []) @ fst (emit_metadata v st), Inl TypeError) \<and>
      filter is_span_part (fst (transform raw st (Success v rv))) = [] \<and>
      ending (pipeThrough ws' raw (before @ Success v rv # after)) = Errored TypeError \<and>
      filter is_finish (parts (pipeThrough ws' raw (before @ Success v rv # after))) = [])"
proof (intro conjI impI)
  assume "resp_choices (api_value r) = []"
  then show "doGenerate_result body ws r = Inl TypeError"
    by (simp add: doGenerate_result_def)
next
  assume e: "resp_choices (api_value r) = []"
    and "getArgs this c = Inr (args, ws) \<and> config_headers this = Inr hs \<and>
         post \<lparr>body_args = args, body_stream = None\<rparr> = Inr r"
  then have "doGenerate this post c =
           (doGenerate_result \<lparr>body_args = args, body_stream = None\<rparr> ws r,
            [\<lparr>body_args = args, body_stream = None\<rparr>])"
    using doGenerate_success [of this c args ws hs post r] by simp
  with e show "doGenerate this post c
      = (Inl TypeError, [\<lparr>body_args = args, body_stream = None\<rparr>])"
    by (simp add: doGenerate_result_def)
next
  assume "chunk_choices v = []"
  then show "transform raw st (Success v rv)
        = ((if raw then [Raw rv] else []) @ fst (emit_metadata v st), Inl TypeError)"
    by (rule transform_no_choice)
next
  assume "chunk_choices v = []"
  then have "transform raw st (Success v rv)
        = ((if raw then [Raw rv] else []) @ fst (emit_metadata v st), Inl TypeError)"
    by (rule transform_no_choice)
  then show "filter is_span_part (fst (transform raw st (Success v rv))) = []"
    using transform_thrown_parts by fastforce
next
  assume "chunk_choices v = []"
  then have "\<not> list_all has_choice (before @ Success v rv # after)"
    by simp
  then show "ending (pipeThrough ws' raw (before @ Success v rv # after)) = Errored TypeError"
    by (simp add: pipeThrough_errored)
next
  assume "chunk_choices v = []"
  then have "\<not> list_all has_choice (before @ Success v rv # after)"
    by simp
  then show "filter is_finish (parts (pipeThrough ws' raw (before @ Success v rv # after))) = []"
    by (simp add: pipeThrough_errored)
qed

theorem empty_choices_throw_witness:
  "resp_choices (api_value no_choice_response) = [] \<and>
   doGenerate test_model (\<lambda>b. Inr no_choice_response)
     (test_call [UserMessage [TextPart ''Hello'']])
     = (Inl TypeError, [\<lparr>body_args = test_args ''Hello'', body_stream = None\<rparr>]) \<and>
   ending (pipeThrough [] False
     ([text_chunk (Some (ContentString ''Hello'')) None None] @ usage_only_chunk # []))
     = Errored TypeError \<and>
   filter is_finish (parts (pipeThrough [] False
     ([text_chunk (Some (ContentString ''Hello'')) None None] @ usage_only_chunk # []))) = []"
proof -
  have g: "getArgs test_model (test_call [UserMessage [TextPart ''Hello'']])
             = Inr (test_args ''Hello'', [])"
    by (simp add: getArgs_test_call)
  have n: "resp_choices (api_value no_choice_response) = []"
    by (simp add: no_choice_response_def)
  from empty_choices_throw
    [of no_choice_response _ "[]" test_model "test_call [UserMessage [TextPart ''Hello'']]"
        "test_args ''Hello''" "[(''Authorization'', ''Bearer test-api-key'')]"
        "\<lambda>b. Inr no_choice_response"
        "\<lparr>chunk_id = None, chunk_created = None, chunk_model = None, chunk_choices = [],
          chunk_usage = Some \<lparr>prompt_tokens = 4, completion_tokens = 1, total_tokens = 5\<rparr>\<rparr>"
        False _ JNull "[]" "[text_chunk (Some (ContentString ''Hello'')) None None]" "[]"]
  show ?thesis
    using g n config_headers_test_model by (simp add: usage_only_chunk_def)
qed

end
